theory Spec2Isabelle
  imports Main "HOL-Library.Word" "HOL-Library.Sublist"
begin

section \<open>The disassembly data model (package disasm, as used by server.go and the client)\<close>

text \<open>
  Go strings are byte sequences: \<open>string\<close>. Go \<open>uint64\<close> is \<open>64 word\<close>. Go \<open>int\<close> values
  are only copied by the code below, never computed with, so they are \<open>int\<close>.
  Go slices are lists; a nil slice and an empty slice are both the empty list, except
  for the \<open>Lines\<close> of a source block: it is the one slice the server copies into its
  answer as it is (line 347) instead of filling a slice made with \<open>make\<close>, and the
  encoder writes a nil slice and an empty slice differently. There \<open>None\<close> is the nil
  slice.
\<close>

text \<open>
  Modelled from the spec: the type declarations of package \<open>disasm\<close> (\<open>Code\<close>, \<open>Inst\<close>,
  \<open>Source\<close>, \<open>SourceBlock\<close>, \<open>LineRange\<close>, \<open>Options\<close>) are not among the sources. The fields
  are the ones the conversion code reads and writes, which are the ones the data model of
  the specification lists for DecodedFunction, Instruction, SourceBlock and LineRange.
\<close>

record LineRange =
  From :: int
  To :: int

text \<open>\<open>SourceBlock\<close> embeds \<open>LineRange\<close> (the client writes \<open>LineRange: disasm.LineRange{...}\<close>
  and the server reads \<open>block.From\<close>, \<open>block.To\<close>).\<close>

record SourceBlock = LineRange +
  Lines :: "string list option"
  Related :: "LineRange list list"

record Source =
  File :: string
  Blocks :: "SourceBlock list"

record Inst =
  PC :: "64 word"
  Text :: string
  File :: string
  Line :: int
  RefPC :: "64 word"
  RefOffset :: int
  RefStack :: int
  Call :: string

record Code =
  Name :: string
  File :: string
  Insts :: "Inst list"
  Source :: "Source list"
  MaxJump :: int

record Options =
  Context :: int

section \<open>Response types of the API (server.go, lines 372-418)\<close>

record FunctionInfo =
  Name :: string

record LineRangeInfo =
  From :: int
  To :: int

record SourceBlockInfo =
  From :: int
  To :: int
  Lines :: "string list option"
  Related :: "LineRangeInfo list list"

record SourceInfo =
  File :: string
  Blocks :: "SourceBlockInfo list"

record InstructionInfo =
  PC :: "64 word"
  Text :: string
  File :: string
  Line :: int
  RefPC :: "64 word"
  RefOffset :: int
  RefStack :: int
  Call :: string

record CodeResponse =
  Name :: string
  File :: string
  Instructions :: "InstructionInfo list"
  Sources :: "SourceInfo list"
  MaxJump :: int

section \<open>Server side: \<open>disasm.Code\<close> to \<open>CodeResponse\<close> (handleFunctionOperations, lines 313-365)\<close>

text \<open>Each \<open>for i, x := range xs { out[i] = ... }\<close> over a slice made with \<open>len(xs)\<close>
  elements is a \<open>map\<close>.\<close>

definition toLineRangeInfo :: "LineRange \<Rightarrow> LineRangeInfo" where
  "toLineRangeInfo rng =
     \<lparr> LineRangeInfo.From = LineRange.From rng, To = LineRange.To rng \<rparr>"

definition toSourceBlockInfo :: "SourceBlock \<Rightarrow> SourceBlockInfo" where
  "toSourceBlockInfo block =
     \<lparr> SourceBlockInfo.From = LineRange.From block,
       To = LineRange.To block,
       Lines = SourceBlock.Lines block,
       Related = map (map toLineRangeInfo) (SourceBlock.Related block) \<rparr>"

definition toSourceInfo :: "Source \<Rightarrow> SourceInfo" where
  "toSourceInfo src =
     \<lparr> SourceInfo.File = Source.File src,
       Blocks = map toSourceBlockInfo (Source.Blocks src) \<rparr>"

definition toInstructionInfo :: "Inst \<Rightarrow> InstructionInfo" where
  "toInstructionInfo inst =
     \<lparr> InstructionInfo.PC = Inst.PC inst,
       Text = Inst.Text inst,
       File = Inst.File inst,
       Line = Inst.Line inst,
       RefPC = Inst.RefPC inst,
       RefOffset = Inst.RefOffset inst,
       RefStack = Inst.RefStack inst,
       Call = Inst.Call inst \<rparr>"

definition toCodeResponse :: "Code \<Rightarrow> CodeResponse" where
  "toCodeResponse code =
     \<lparr> CodeResponse.Name = Code.Name code,
       File = Code.File code,
       Instructions = map toInstructionInfo (Code.Insts code),
       Sources = map toSourceInfo (Code.Source code),
       MaxJump = Code.MaxJump code \<rparr>"

section \<open>Client side: \<open>CodeResponse\<close> to \<open>disasm.Code\<close> (Client.GetFunctionCode, lines 130-184)\<close>

definition fromLineRangeInfo :: "LineRangeInfo \<Rightarrow> LineRange" where
  "fromLineRangeInfo rng =
     \<lparr> LineRange.From = LineRangeInfo.From rng, LineRange.To = LineRangeInfo.To rng \<rparr>"

definition fromSourceBlockInfo :: "SourceBlockInfo \<Rightarrow> SourceBlock" where
  "fromSourceBlockInfo block =
     \<lparr> LineRange.From = SourceBlockInfo.From block,
       LineRange.To = SourceBlockInfo.To block,
       SourceBlock.Lines = SourceBlockInfo.Lines block,
       SourceBlock.Related = map (map fromLineRangeInfo) (SourceBlockInfo.Related block) \<rparr>"

definition fromSourceInfo :: "SourceInfo \<Rightarrow> Source" where
  "fromSourceInfo src =
     \<lparr> Source.File = SourceInfo.File src,
       Blocks = map fromSourceBlockInfo (SourceInfo.Blocks src) \<rparr>"

definition fromInstructionInfo :: "InstructionInfo \<Rightarrow> Inst" where
  "fromInstructionInfo inst =
     \<lparr> Inst.PC = InstructionInfo.PC inst,
       Text = InstructionInfo.Text inst,
       File = InstructionInfo.File inst,
       Line = InstructionInfo.Line inst,
       RefPC = InstructionInfo.RefPC inst,
       RefOffset = InstructionInfo.RefOffset inst,
       RefStack = InstructionInfo.RefStack inst,
       Call = InstructionInfo.Call inst \<rparr>"

definition fromCodeResponse :: "CodeResponse \<Rightarrow> Code" where
  "fromCodeResponse result =
     \<lparr> Code.Name = CodeResponse.Name result,
       File = CodeResponse.File result,
       Insts = map fromInstructionInfo (CodeResponse.Instructions result),
       Source = map fromSourceInfo (CodeResponse.Sources result),
       MaxJump = CodeResponse.MaxJump result \<rparr>"

section \<open>The interfaces \<open>disasm.File\<close> and \<open>disasm.Func\<close>, and what the server calls outside itself\<close>

text \<open>A Go \<open>error\<close> value, with the text \<open>%v\<close> prints for it.\<close>

datatype error = Error string

fun errorText :: "error \<Rightarrow> string" where
  "errorText (Error m) = m"

text \<open>
  Modelled from the spec: the interface declarations \<open>disasm.Func\<close> and \<open>disasm.File\<close> are
  not among the sources; the specification gives them as
  \<open>Function { name() \<rightarrow> string; load(Options) \<rightarrow> DecodedFunction }\<close> and
  \<open>Executable { functions() \<rightarrow> ordered list of Function; close() \<rightarrow> Result }\<close>.
  \<open>Load\<close> returns a \<open>*disasm.Code\<close>: \<open>None\<close> is the nil pointer. \<open>Close\<close> returns an
  \<open>error\<close>: \<open>None\<close> is nil.
\<close>

record Func =
  Name :: string
  Load :: "Options \<Rightarrow> Code option"

record File =
  Funcs :: "Func list"
  Close :: "error option"

text \<open>
  What the handlers call outside server.go: the two loaders (packages \<open>goobj\<close> and
  \<open>wasmobj\<close>), \<open>regexp.Compile\<close> (a compiled expression is used only through
  \<open>MatchString\<close>, so it is its matching predicate), \<open>strconv.Atoi\<close>, and the package
  variable \<open>workInProgressWASM\<close> (fileui.go, line 23). For the watch loop of fileui.go,
  \<open>os_Stat\<close> gives the error of \<open>os.Stat\<close> or the modification time, an instant.
  \<open>fileBytes\<close> is the content of the file system the loaders read; no code here reads it.
\<close>

record env =
  goobj_Load :: "string \<Rightarrow> error + File"
  wasmobj_Load :: "string \<Rightarrow> error + File"
  regexp_Compile :: "string \<Rightarrow> error + (string \<Rightarrow> bool)"
  strconv_Atoi :: "string \<Rightarrow> int option"
  workInProgressWASM :: bool
  os_Stat :: "string \<Rightarrow> error + int"
  fileBytes :: "string \<Rightarrow> 8 word list"

section \<open>The server (server.go)\<close>

record Server =
  activeFiles :: "string \<rightharpoonup> File"
  options :: Options

definition NewServer :: "int \<Rightarrow> Server" where
  "NewServer context = \<lparr> activeFiles = Map.empty, options = \<lparr> Context = context \<rparr> \<rparr>"

text \<open>
  What a handler writes to the \<open>http.ResponseWriter\<close>: a status code and a body.
  \<open>ErrorText m\<close> is the body \<open>http.Error(w, m, code)\<close> writes. The list of loaded files
  is collected by ranging over a Go map, whose order is unspecified: a set.
\<close>

datatype body =
    NoBody
  | ErrorText string
  | FilesJSON "string set"
  | FunctionsJSON "FunctionInfo list"
  | CodeJSON CodeResponse

datatype response = Response nat body

abbreviation StatusOK :: nat where "StatusOK \<equiv> 200"
abbreviation StatusCreated :: nat where "StatusCreated \<equiv> 201"
abbreviation StatusBadRequest :: nat where "StatusBadRequest \<equiv> 400"
abbreviation StatusNotFound :: nat where "StatusNotFound \<equiv> 404"
abbreviation StatusMethodNotAllowed :: nat where "StatusMethodNotAllowed \<equiv> 405"
abbreviation StatusInternalServerError :: nat where "StatusInternalServerError \<equiv> 500"

definition http_Error :: "string \<Rightarrow> nat \<Rightarrow> response" where
  "http_Error m code = Response code (ErrorText m)"

datatype loader = Goobj | Wasmobj

text \<open>What a handler does besides answering and updating the registry: calls of a loader,
  calls of \<open>Close\<close> on a file, lines written with \<open>log.Printf\<close>.\<close>

datatype effect =
    CallLoad loader string
  | CallClose File
  | Logged string

record outcome =
  resp :: response
  server :: Server
  effects :: "effect list"

datatype httpMethod = GET | POST | DELETE | OPTIONS

text \<open>\<open>isWasmFile\<close> (lines 420-423) matches the path against \<open>\.wasm$\<close>: the path ends
  in the five bytes \<open>.wasm\<close>.\<close>

definition isWasmFile :: "string \<Rightarrow> bool" where
  "isWasmFile path = (drop (length path - 5) path = ''.wasm'')"

text \<open>The condition of line 119 and the two calls of lines 120 and 122.\<close>

definition chooseLoader :: "env \<Rightarrow> string \<Rightarrow> loader" where
  "chooseLoader E path = (if workInProgressWASM E \<and> isWasmFile path then Wasmobj else Goobj)"

fun callLoader :: "env \<Rightarrow> loader \<Rightarrow> string \<Rightarrow> error + File" where
  "callLoader E Wasmobj path = wasmobj_Load E path"
| "callLoader E Goobj path = goobj_Load E path"

text \<open>
  \<open>handleFiles\<close> (lines 85-153). The request body is given as the result of decoding it
  into \<open>struct{ Path string }\<close>: a decoding error, or the path (empty when the field is
  absent).
\<close>

definition handleFiles :: "env \<Rightarrow> Server \<Rightarrow> httpMethod \<Rightarrow> error + string \<Rightarrow> outcome" where
  "handleFiles E s m reqBody =
    (case m of
       POST \<Rightarrow>
         (case reqBody of
            Inl err \<Rightarrow>
              \<lparr> resp = http_Error (''Invalid request: '' @ errorText err) StatusBadRequest,
                server = s, effects = [] \<rparr>
          | Inr path \<Rightarrow>
              if path = [] then
                \<lparr> resp = http_Error ''Path is required'' StatusBadRequest,
                  server = s, effects = [] \<rparr>
              else if activeFiles s path \<noteq> None then
                \<lparr> resp = Response StatusOK NoBody, server = s, effects = [] \<rparr>
              else
                (case callLoader E (chooseLoader E path) path of
                   Inl err \<Rightarrow>
                     \<lparr> resp = http_Error (''Failed to load file: '' @ errorText err)
                                StatusInternalServerError,
                       server = s, effects = [CallLoad (chooseLoader E path) path] \<rparr>
                 | Inr file \<Rightarrow>
                     \<lparr> resp = Response StatusCreated NoBody,
                       server = s\<lparr> activeFiles := (activeFiles s)(path \<mapsto> file) \<rparr>,
                       effects = [CallLoad (chooseLoader E path) path] \<rparr>))
     | GET \<Rightarrow>
         \<lparr> resp = Response StatusOK (FilesJSON (dom (activeFiles s))),
           server = s, effects = [] \<rparr>
     | _ \<Rightarrow>
         \<lparr> resp = http_Error ''Method not allowed'' StatusMethodNotAllowed,
           server = s, effects = [] \<rparr>)"

text \<open>\<open>handleFileOperations\<close> (lines 156-186); \<open>path\<close> is the router variable.\<close>

definition handleFileOperations :: "Server \<Rightarrow> string \<Rightarrow> outcome" where
  "handleFileOperations s path =
    (if path = [] then
       \<lparr> resp = http_Error ''File path is required'' StatusBadRequest,
         server = s, effects = [] \<rparr>
     else
       (case activeFiles s path of
          None \<Rightarrow>
            \<lparr> resp = http_Error ''File not found'' StatusNotFound, server = s, effects = [] \<rparr>
        | Some file \<Rightarrow>
            \<lparr> resp = Response StatusOK NoBody,
              server = s\<lparr> activeFiles := (activeFiles s)(path := None) \<rparr>,
              effects = CallClose file #
                (case Close file of
                   None \<Rightarrow> []
                 | Some err \<Rightarrow>
                     [Logged (''Error closing file '' @ path @ '': '' @ errorText err)]) \<rparr>))"

text \<open>The loop of lines 224-230: \<open>filteredFuncs\<close> starts nil and grows by \<open>append\<close>.\<close>

fun appendMatching ::
  "(string \<Rightarrow> bool) \<Rightarrow> Func list \<Rightarrow> FunctionInfo list \<Rightarrow> FunctionInfo list" where
  "appendMatching rx [] filteredFuncs = filteredFuncs"
| "appendMatching rx (fn # fns) filteredFuncs =
     appendMatching rx fns
       (if rx (Func.Name fn) then filteredFuncs @ [\<lparr> FunctionInfo.Name = Func.Name fn \<rparr>]
        else filteredFuncs)"

text \<open>\<open>handleFunctions\<close> (lines 189-246); \<open>path\<close> and \<open>nameFilter\<close> are the query parameters
  \<open>file\<close> and \<open>filter\<close> (empty when absent).\<close>

definition handleFunctions :: "env \<Rightarrow> Server \<Rightarrow> string \<Rightarrow> string \<Rightarrow> outcome" where
  "handleFunctions E s path nameFilter =
    (if path = [] then
       \<lparr> resp = http_Error ''File path is required'' StatusBadRequest,
         server = s, effects = [] \<rparr>
     else
       (case activeFiles s path of
          None \<Rightarrow>
            \<lparr> resp = http_Error ''File not found'' StatusNotFound, server = s, effects = [] \<rparr>
        | Some file \<Rightarrow>
            if nameFilter \<noteq> [] then
              (case regexp_Compile E nameFilter of
                 Inl err \<Rightarrow>
                   \<lparr> resp = http_Error (''Invalid filter regex: '' @ errorText err)
                              StatusBadRequest,
                     server = s, effects = [] \<rparr>
               | Inr rx \<Rightarrow>
                   \<lparr> resp = Response StatusOK
                              (FunctionsJSON (appendMatching rx (Funcs file) [])),
                     server = s, effects = [] \<rparr>)
            else
              \<lparr> resp = Response StatusOK
                         (FunctionsJSON
                            (map (\<lambda>fn. \<lparr> FunctionInfo.Name = Func.Name fn \<rparr>) (Funcs file))),
                server = s, effects = [] \<rparr>))"

text \<open>\<open>handleFunctionOperations\<close> (lines 249-370); \<open>functionName\<close> is the router
  variable, \<open>path\<close> and \<open>contextStr\<close> the query parameters \<open>file\<close> and \<open>context\<close>.
  The search loop of lines 283-288 stops at the first function of that name.\<close>

definition handleFunctionOperations ::
  "env \<Rightarrow> Server \<Rightarrow> string \<Rightarrow> string \<Rightarrow> string \<Rightarrow> outcome" where
  "handleFunctionOperations E s functionName path contextStr =
    (if functionName = [] then
       \<lparr> resp = http_Error ''Function name is required'' StatusBadRequest,
         server = s, effects = [] \<rparr>
     else if path = [] then
       \<lparr> resp = http_Error ''File path is required'' StatusBadRequest,
         server = s, effects = [] \<rparr>
     else
       (case activeFiles s path of
          None \<Rightarrow>
            \<lparr> resp = http_Error ''File not found'' StatusNotFound, server = s, effects = [] \<rparr>
        | Some file \<Rightarrow>
            (case find (\<lambda>fn. Func.Name fn = functionName) (Funcs file) of
               None \<Rightarrow>
                 \<lparr> resp = http_Error ''Function not found'' StatusNotFound,
                   server = s, effects = [] \<rparr>
             | Some targetFunc \<Rightarrow>
                 (case (if contextStr \<noteq> [] then
                          (case strconv_Atoi E contextStr of
                             None \<Rightarrow> None
                           | Some context \<Rightarrow> Some ((options s)\<lparr> Context := context \<rparr>))
                        else Some (options s)) of
                    None \<Rightarrow>
                      \<lparr> resp = http_Error ''Invalid context value'' StatusBadRequest,
                        server = s, effects = [] \<rparr>
                  | Some opts \<Rightarrow>
                      (case Func.Load targetFunc opts of
                         None \<Rightarrow>
                           \<lparr> resp = http_Error ''Failed to load function code''
                                      StatusInternalServerError,
                             server = s, effects = [] \<rparr>
                       | Some code \<Rightarrow>
                           \<lparr> resp = Response StatusOK (CodeJSON (toCodeResponse code)),
                             server = s, effects = [] \<rparr>)))))"

text \<open>The routes of \<open>StartServer\<close> (lines 50-53), and a server answering requests one
  after another, each in the environment of its moment.\<close>

datatype request =
    FilesReq httpMethod "error + string"
  | FileDeleteReq string
  | FunctionsReq string string
  | FunctionCodeReq string string string

fun serve :: "env \<Rightarrow> Server \<Rightarrow> request \<Rightarrow> outcome" where
  "serve E s (FilesReq m reqBody) = handleFiles E s m reqBody"
| "serve E s (FileDeleteReq path) = handleFileOperations s path"
| "serve E s (FunctionsReq path nameFilter) = handleFunctions E s path nameFilter"
| "serve E s (FunctionCodeReq functionName path contextStr) =
     handleFunctionOperations E s functionName path contextStr"

fun run :: "(env \<times> request) list \<Rightarrow> Server \<Rightarrow> Server" where
  "run [] s = s"
| "run ((E, r) # rest) s = run rest (server (serve E s r))"

text \<open>Whether a request asks to load the path \<open>p\<close>.\<close>

fun addsPath :: "string \<Rightarrow> request \<Rightarrow> bool" where
  "addsPath p (FilesReq POST (Inr path)) = (path = p)"
| "addsPath p _ = False"

section \<open>The serialized form of a response\<close>

datatype json =
    JNull
  | JString string
  | JNumber int
  | JArray "json list"
  | JObject "(string \<times> json) list"

text \<open>
  \<open>json.NewEncoder(w).Encode(response)\<close> (line 369) writes a struct as an object that has
  one member for each field, named by the field's \<open>json:"..."\<close> tag (lines 380-418), in
  the order of declaration; a string as a string, an integer as a number, a slice as an
  array, and a nil slice as \<open>null\<close>. The slices the handler makes with \<open>make\<close> are never
  nil; \<open>Lines\<close> is copied from the decoded function and is nil when it is nil there.
\<close>

definition encodeLineRangeInfo :: "LineRangeInfo \<Rightarrow> json" where
  "encodeLineRangeInfo rng =
     JObject [(''from'', JNumber (LineRangeInfo.From rng)),
              (''to'', JNumber (LineRangeInfo.To rng))]"

definition encodeSourceBlockInfo :: "SourceBlockInfo \<Rightarrow> json" where
  "encodeSourceBlockInfo block =
     JObject [(''from'', JNumber (SourceBlockInfo.From block)),
              (''to'', JNumber (SourceBlockInfo.To block)),
              (''lines'',
                 (case SourceBlockInfo.Lines block of
                    None \<Rightarrow> JNull
                  | Some lines \<Rightarrow> JArray (map JString lines))),
              (''related'',
                 JArray (map (\<lambda>relatedRanges. JArray (map encodeLineRangeInfo relatedRanges))
                           (SourceBlockInfo.Related block)))]"

definition encodeSourceInfo :: "SourceInfo \<Rightarrow> json" where
  "encodeSourceInfo src =
     JObject [(''file'', JString (SourceInfo.File src)),
              (''blocks'', JArray (map encodeSourceBlockInfo (SourceInfo.Blocks src)))]"

definition encodeInstructionInfo :: "InstructionInfo \<Rightarrow> json" where
  "encodeInstructionInfo inst =
     JObject [(''pc'', JNumber (uint (InstructionInfo.PC inst))),
              (''text'', JString (InstructionInfo.Text inst)),
              (''file'', JString (InstructionInfo.File inst)),
              (''line'', JNumber (InstructionInfo.Line inst)),
              (''refPc'', JNumber (uint (InstructionInfo.RefPC inst))),
              (''refOffset'', JNumber (InstructionInfo.RefOffset inst)),
              (''refStack'', JNumber (InstructionInfo.RefStack inst)),
              (''call'', JString (InstructionInfo.Call inst))]"

definition encodeCodeResponse :: "CodeResponse \<Rightarrow> json" where
  "encodeCodeResponse response =
     JObject [(''name'', JString (CodeResponse.Name response)),
              (''file'', JString (CodeResponse.File response)),
              (''instructions'',
                 JArray (map encodeInstructionInfo (CodeResponse.Instructions response))),
              (''sources'', JArray (map encodeSourceInfo (CodeResponse.Sources response))),
              (''maxJump'', JNumber (CodeResponse.MaxJump response))]"

text \<open>
  The shape the specification fixes for the serialized form, in its notation: a name
  stands for a member holding a string or a number, \<open>x[...]\<close> for a member \<open>x\<close> holding
  an array, \<open>{...}\<close> for an object with exactly the listed members, in that order.
  \<open>ArrayOrNull\<close> is not in that notation: it is an array or \<open>null\<close>.
\<close>

datatype shape = Scalar | Array shape | ArrayOrNull shape | Object "(string \<times> shape) list"

fun hasShape :: "shape \<Rightarrow> json \<Rightarrow> bool"
  and hasMembers :: "(string \<times> shape) list \<Rightarrow> (string \<times> json) list \<Rightarrow> bool" where
  "hasShape Scalar (JString s) = True"
| "hasShape Scalar (JNumber n) = True"
| "hasShape Scalar (JArray vs) = False"
| "hasShape Scalar (JObject ms) = False"
| "hasShape Scalar JNull = False"
| "hasShape (Array t) (JArray vs) = list_all (hasShape t) vs"
| "hasShape (Array t) (JString s) = False"
| "hasShape (Array t) (JNumber n) = False"
| "hasShape (Array t) (JObject ms) = False"
| "hasShape (Array t) JNull = False"
| "hasShape (ArrayOrNull t) (JArray vs) = list_all (hasShape t) vs"
| "hasShape (ArrayOrNull t) JNull = True"
| "hasShape (ArrayOrNull t) (JString s) = False"
| "hasShape (ArrayOrNull t) (JNumber n) = False"
| "hasShape (ArrayOrNull t) (JObject ms) = False"
| "hasShape (Object fs) (JObject ms) = hasMembers fs ms"
| "hasShape (Object fs) (JString s) = False"
| "hasShape (Object fs) (JNumber n) = False"
| "hasShape (Object fs) (JArray vs) = False"
| "hasShape (Object fs) JNull = False"
| "hasMembers [] [] = True"
| "hasMembers ((k, t) # fs) ((k', v) # ms) = (k = k' \<and> hasShape t v \<and> hasMembers fs ms)"
| "hasMembers [] (m # ms) = False"
| "hasMembers (f # fs) [] = False"

text \<open>\<open>name, file, instructions[{pc, text, file, line, refPc, refOffset, refStack, call}],
  sources[{file, blocks[{from, to, lines[], related[][{from,to}]}]}], maxJump\<close>, as the
  specification writes it, with the shape of the member \<open>lines\<close> left open.\<close>

definition shapeWithLines :: "shape \<Rightarrow> shape" where
  "shapeWithLines linesShape =
     Object [(''name'', Scalar),
             (''file'', Scalar),
             (''instructions'',
                Array (Object [(''pc'', Scalar), (''text'', Scalar), (''file'', Scalar),
                               (''line'', Scalar), (''refPc'', Scalar), (''refOffset'', Scalar),
                               (''refStack'', Scalar), (''call'', Scalar)])),
             (''sources'',
                Array (Object [(''file'', Scalar),
                               (''blocks'',
                                  Array (Object [(''from'', Scalar), (''to'', Scalar),
                                                 (''lines'', linesShape),
                                                 (''related'',
                                                    Array (Array (Object [(''from'', Scalar),
                                                                          (''to'', Scalar)])))]))])),
             (''maxJump'', Scalar)]"

text \<open>The specification's shape has \<open>lines[]\<close>, an array. What the server writes has the
  same members with the same names in the same places, and \<open>lines\<close> an array or
  \<open>null\<close>.\<close>

definition DecodedFunctionShape :: shape where
  "DecodedFunctionShape = shapeWithLines (Array Scalar)"

definition WireShape :: shape where
  "WireShape = shapeWithLines (ArrayOrNull Scalar)"

text \<open>No source block of the decoded function has nil \<open>Lines\<close>.\<close>

definition linesNotNil :: "Code \<Rightarrow> bool" where
  "linesNotNil code =
     list_all (\<lambda>src. list_all (\<lambda>block. SourceBlock.Lines block \<noteq> None) (Source.Blocks src))
       (Code.Source code)"

section \<open>Choosing the loader by the content of the file, as the specification puts it\<close>

text \<open>
  The specification has the container type detected from the header's magic bytes. A
  WebAssembly module starts with the four bytes 00 61 73 6D. \<open>specChoosesLoader\<close> is that
  criterion, to be compared with \<open>chooseLoader\<close>, which is the code's.
\<close>

definition hasWasmMagic :: "8 word list \<Rightarrow> bool" where
  "hasWasmMagic bytes = (take 4 bytes = [0x00, 0x61, 0x73, 0x6D])"

definition specChoosesLoader :: "env \<Rightarrow> string \<Rightarrow> loader" where
  "specChoosesLoader E path = (if hasWasmMagic (fileBytes E path) then Wasmobj else Goobj)"

section \<open>The remote client (Client.GetFunctionCode and NetworkFunc.Load)\<close>

text \<open>
  The request \<open>GetFunctionCode\<close> sends: the function name in the URL, the query parameter
  \<open>file\<close>, and the query parameter \<open>context\<close> only when the context is positive
  (lines 105-114). The transport answers with an error, or with a status, the body as
  text and the result of decoding the body into a \<open>CodeResponse\<close>.
\<close>

record codeRequest =
  reqName :: string
  reqFile :: string
  reqContext :: "int option"

record httpReply =
  StatusCode :: nat
  Body :: string
  decoded :: "error + CodeResponse"

type_synonym transport = "codeRequest \<Rightarrow> error + httpReply"

definition GetFunctionCode :: "transport \<Rightarrow> string \<Rightarrow> string \<Rightarrow> int \<Rightarrow> error + Code" where
  "GetFunctionCode httpGet path functionName context =
    (case httpGet \<lparr> reqName = functionName, reqFile = path,
                    reqContext = (if context > 0 then Some context else None) \<rparr> of
       Inl err \<Rightarrow> Inl (Error (''error sending request: '' @ errorText err))
     | Inr reply \<Rightarrow>
         if StatusCode reply \<noteq> StatusOK then Inl (Error (''server error: '' @ Body reply))
         else
           (case decoded reply of
              Inl err \<Rightarrow> Inl (Error (''error decoding response: '' @ errorText err))
            | Inr result \<Rightarrow> Inr (fromCodeResponse result)))"

text \<open>\<open>NetworkFunc\<close> (lines 198-202), with the path of its file in place of the pointer
  to the file. \<open>NetworkFunc.Load\<close> (lines 274-282) returns the code, or nil after printing
  the error: the result and the lines printed.\<close>

record NetworkFunc =
  filePath :: string
  name :: string

definition NetworkFunc_Load ::
  "transport \<Rightarrow> NetworkFunc \<Rightarrow> Options \<Rightarrow> Code option \<times> string list" where
  "NetworkFunc_Load httpGet f opt =
    (case GetFunctionCode httpGet (filePath f) (name f) (Context opt) of
       Inl err \<Rightarrow>
         (None, [''Error loading function '' @ name f @ '': '' @ errorText err])
     | Inr code \<Rightarrow> (Some code, []))"

section \<open>Loading and watching in the window's background task (FileUI.Run, fileui.go)\<close>

text \<open>
  \<open>fileLoaded\<close> and \<open>fileLoadError\<close> (lines 65-66) are channels with a buffer of one
  element: the buffer is empty or holds one value. The payloads are a freshly loaded file
  and an error value; the types are parameters, so that two results can be told apart
  whatever they carry.
\<close>

record ('f, 'e) chans =
  fileLoaded :: "'f option"
  fileLoadError :: "'e option"

definition emptyChans :: "('f, 'e) chans" where
  "emptyChans = \<lparr> fileLoaded = None, fileLoadError = None \<rparr>"

text \<open>\<open>select { case <-c: default: }\<close> takes the buffered value if there is one.
  \<open>c <- v\<close> fills an empty buffer and blocks on a full one (\<open>None\<close>).\<close>

definition drain :: "'a option \<Rightarrow> 'a option" where
  "drain c = None"

definition send :: "'a \<Rightarrow> 'a option \<Rightarrow> 'a option option" where
  "send v c = (case c of None \<Rightarrow> Some (Some v) | Some pending \<Rightarrow> None)"

text \<open>\<open>loadFinished\<close> (lines 68-82). Its arguments \<open>(exe, err)\<close> are a loader's result:
  \<open>Inr exe\<close> when \<open>err == nil\<close>, \<open>Inl err\<close> otherwise. \<open>None\<close>: the send blocks.\<close>

definition loadFinished :: "'e + 'f \<Rightarrow> ('f, 'e) chans \<Rightarrow> ('f, 'e) chans option" where
  "loadFinished r ch =
    (case r of
       Inr exe \<Rightarrow>
         (case send exe (drain (fileLoaded ch)) of
            None \<Rightarrow> None
          | Some c \<Rightarrow> Some (ch\<lparr> fileLoaded := c \<rparr>))
     | Inl err \<Rightarrow>
         (case send err (drain (fileLoadError ch)) of
            None \<Rightarrow> None
          | Some c \<Rightarrow> Some (ch\<lparr> fileLoadError := c \<rparr>)))"

text \<open>
  The background task and the window's loop (lines 141-162) run side by side. A schedule
  lists what happens in order: the task calls \<open>loadFinished\<close> with a result, or the
  window's \<open>select\<close> takes the case of \<open>fileLoadError\<close> or the case of \<open>fileLoaded\<close>
  (which it can only when that channel holds a value). The events are the results
  produced and the results the window observes.
\<close>

datatype ('f, 'e) action = Produce "'e + 'f" | TakeError | TakeLoaded

datatype ('f, 'e) event = Produced "'e + 'f" | Observed "'e + 'f"

fun step :: "('f, 'e) action \<Rightarrow> ('f, 'e) chans \<Rightarrow> ('f, 'e) chans \<times> ('f, 'e) event list" where
  "step (Produce r) ch =
     (case loadFinished r ch of None \<Rightarrow> (ch, []) | Some ch' \<Rightarrow> (ch', [Produced r]))"
| "step TakeError ch =
     (case fileLoadError ch of
        None \<Rightarrow> (ch, [])
      | Some err \<Rightarrow> (ch\<lparr> fileLoadError := None \<rparr>, [Observed (Inl err)]))"
| "step TakeLoaded ch =
     (case fileLoaded ch of
        None \<Rightarrow> (ch, [])
      | Some file \<Rightarrow> (ch\<lparr> fileLoaded := None \<rparr>, [Observed (Inr file)]))"

fun trace :: "('f, 'e) action list \<Rightarrow> ('f, 'e) chans \<Rightarrow> ('f, 'e) event list" where
  "trace [] ch = []"
| "trace (a # as) ch = snd (step a ch) @ trace as (fst (step a ch))"

fun after :: "('f, 'e) action list \<Rightarrow> ('f, 'e) chans \<Rightarrow> ('f, 'e) chans" where
  "after [] ch = ch"
| "after (a # as) ch = after as (fst (step a ch))"

text \<open>Every observed result is the one produced last before it, of either kind
  (\<open>newest\<close> is the result produced last so far).\<close>

fun latestOnly :: "('e + 'f) option \<Rightarrow> ('f, 'e) event list \<Rightarrow> bool" where
  "latestOnly newest [] = True"
| "latestOnly newest (Produced r # es) = latestOnly (Some r) es"
| "latestOnly newest (Observed r # es) = (newest = Some r \<and> latestOnly newest es)"

text \<open>Every observed file is the file produced last before it, and every observed error
  is the error produced last before it.\<close>

fun latestOfItsKind :: "'f option \<Rightarrow> 'e option \<Rightarrow> ('f, 'e) event list \<Rightarrow> bool" where
  "latestOfItsKind lastFile lastErr [] = True"
| "latestOfItsKind lastFile lastErr (Produced (Inr file) # es) =
     latestOfItsKind (Some file) lastErr es"
| "latestOfItsKind lastFile lastErr (Produced (Inl err) # es) =
     latestOfItsKind lastFile (Some err) es"
| "latestOfItsKind lastFile lastErr (Observed (Inr file) # es) =
     (lastFile = Some file \<and> latestOfItsKind lastFile lastErr es)"
| "latestOfItsKind lastFile lastErr (Observed (Inl err) # es) =
     (lastErr = Some err \<and> latestOfItsKind lastFile lastErr es)"

text \<open>The configuration (lines 25-30) and the state of the background task: the local
  variable \<open>lastModTime\<close> (initially the zero instant), the two channels, and the number
  of calls of \<open>os.Stat\<close> made so far.\<close>

record FileUIConfig =
  Path :: string
  Watch :: bool
  Context :: int
  ServerURL :: string

record watcher =
  lastModTime :: int
  channels :: "(File, error) chans"
  statCalls :: nat

definition newWatcher :: watcher where
  "newWatcher = \<lparr> lastModTime = 0, channels = emptyChans, statCalls = 0 \<rparr>"

definition localLoad :: "env \<Rightarrow> string \<Rightarrow> error + File" where
  "localLoad E path = (if workInProgressWASM E then wasmobj_Load E path else goobj_Load E path)"

text \<open>The body of the loop (lines 97-113). \<open>None\<close>: blocked in a send.\<close>

definition pollOnce :: "env \<Rightarrow> FileUIConfig \<Rightarrow> watcher \<Rightarrow> watcher option" where
  "pollOnce E cfg w =
    (let w1 = w\<lparr> statCalls := Suc (statCalls w) \<rparr> in
     case os_Stat E (Path cfg) of
       Inl err \<Rightarrow>
         map_option (\<lambda>ch. w1\<lparr> channels := ch \<rparr>) (loadFinished (Inl err) (channels w1))
     | Inr modTime \<Rightarrow>
         if modTime = lastModTime w1 then Some w1
         else
           map_option (\<lambda>ch. w1\<lparr> lastModTime := modTime, channels := ch \<rparr>)
             (loadFinished (localLoad E (Path cfg)) (channels w1)))"

text \<open>What the window takes from the channels while the task waits.\<close>

fun consume :: "(File, error) action list \<Rightarrow> (File, error) chans \<Rightarrow> (File, error) chans" where
  "consume [] ch = ch"
| "consume (TakeError # as) ch = consume as (fst (step TakeError ch))"
| "consume (TakeLoaded # as) ch = consume as (fst (step TakeLoaded ch))"
| "consume (Produce r # as) ch = consume as ch"

definition waitFor :: "(File, error) action list \<Rightarrow> watcher \<Rightarrow> watcher" where
  "waitFor takes w = w\<lparr> channels := consume takes (channels w) \<rparr>"

datatype wake = Tick | Exited

datatype status = Waiting | Returned | Blocked

text \<open>
  The loop of lines 96-124, entered in the environment \<open>E\<close>. It runs the body first
  (lines 97-113) and returns if \<open>Watch\<close> is off (lines 115-117); otherwise it waits at
  lines 119-123. Each round tells what the window takes during that wait, what ends it (the
  ticker, or the closing of \<open>exited\<close>, on which the task returns), and the environment
  the body then runs in. With the rounds used up the task is waiting at line 119: it has
  run the body once more than it has seen ticks.
\<close>

fun watchLoop ::
  "FileUIConfig \<Rightarrow> env \<Rightarrow> ((File, error) action list \<times> wake \<times> env) list \<Rightarrow> watcher
     \<Rightarrow> status \<times> watcher" where
  "watchLoop cfg E [] w =
     (case pollOnce E cfg w of
        None \<Rightarrow> (Blocked, w)
      | Some w1 \<Rightarrow> if \<not> Watch cfg then (Returned, w1) else (Waiting, w1))"
| "watchLoop cfg E ((takes, wk, E') # rounds) w =
     (case pollOnce E cfg w of
        None \<Rightarrow> (Blocked, w)
      | Some w1 \<Rightarrow>
          if \<not> Watch cfg then (Returned, w1)
          else
            (case wk of
               Exited \<Rightarrow> (Returned, waitFor takes w1)
             | Tick \<Rightarrow> watchLoop cfg E' rounds (waitFor takes w1)))"

text \<open>The background task (lines 84-125). In client mode (\<open>ServerURL\<close> set) it reports the
  result of \<open>LoadNetworkFile\<close>, here \<open>remote\<close>, and returns.\<close>

definition backgroundTask ::
  "FileUIConfig \<Rightarrow> error + File \<Rightarrow> env \<Rightarrow> ((File, error) action list \<times> wake \<times> env) list
     \<Rightarrow> watcher \<Rightarrow> status \<times> watcher" where
  "backgroundTask cfg remote E rounds w =
    (if ServerURL cfg \<noteq> [] then
       (case loadFinished remote (channels w) of
          None \<Rightarrow> (Blocked, w)
        | Some ch \<Rightarrow> (Returned, w\<lparr> channels := ch \<rparr>))
     else watchLoop cfg E rounds w)"

section \<open>A concrete file and environment, for evaluating the handlers\<close>

definition exampleFile :: File where
  "exampleFile =
     \<lparr> Funcs = [\<lparr> Func.Name = ''main.main'', Load = (\<lambda>opt. None) \<rparr>,
                \<lparr> Func.Name = ''runtime.gc'', Load = (\<lambda>opt. None) \<rparr>,
                \<lparr> Func.Name = ''main.helper'', Load = (\<lambda>opt. None) \<rparr>],
       Close = None \<rparr>"

text \<open>An environment in which every path loads as \<open>exampleFile\<close>, the pattern \<open>(\<close> does
  not compile, and \<open>^main\<close> matches the names that start with \<open>main\<close>.\<close>

definition exampleEnv :: env where
  "exampleEnv =
     \<lparr> goobj_Load = (\<lambda>path. Inr exampleFile),
       wasmobj_Load = (\<lambda>path. Inr exampleFile),
       regexp_Compile = (\<lambda>pattern.
          if pattern = ''('' then Inl (Error ''error parsing regexp: missing closing )'')
          else if pattern = ''^main'' then Inr (\<lambda>name. take 4 name = ''main'')
          else Inr (\<lambda>name. True)),
       strconv_Atoi = (\<lambda>str. None),
       workInProgressWASM = False,
       os_Stat = (\<lambda>path. Inr 1),
       fileBytes = (\<lambda>path. []) \<rparr>"

definition exampleServer :: Server where
  "exampleServer = run [(exampleEnv, FilesReq POST (Inr ''a.out''))] (NewServer 3)"

text \<open>An environment with the experimental switch on, in which every file starts with the
  bytes of an ELF header.\<close>

definition wasmEnv :: env where
  "wasmEnv = exampleEnv\<lparr> workInProgressWASM := True,
                fileBytes := (\<lambda>path. [0x7F, 0x45, 0x4C, 0x46, 0x02, 0x01]) \<rparr>"

text \<open>A file whose \<open>Close\<close> fails, and a server that has loaded it.\<close>

definition failingFile :: File where
  "failingFile = exampleFile\<lparr> Close := Some (Error ''close a.out: input/output error'') \<rparr>"

definition failingServer :: Server where
  "failingServer = run [(exampleEnv\<lparr> goobj_Load := (\<lambda>path. Inr failingFile) \<rparr>,
                         FilesReq POST (Inr ''a.out''))] (NewServer 3)"

definition statError :: error where
  "statError = Error ''stat a.out: no such file or directory''"

definition exampleCode :: Code where
  "exampleCode =
     \<lparr> Code.Name = ''main.main'', File = ''main.go'',
       Insts = [\<lparr> Inst.PC = 0x401000, Text = ''JMP 0x401000'', File = ''main.go'', Line = 7,
                  RefPC = 0x401000, RefOffset = 0, RefStack = 0, Call = [] \<rparr>],
       Source = [\<lparr> Source.File = ''main.go'',
                   Blocks = [\<lparr> LineRange.From = 6, LineRange.To = 8,
                               SourceBlock.Lines = Some [''func main() {'', ''  for {}''],
                               SourceBlock.Related = [[], [\<lparr> LineRange.From = 0, LineRange.To = 1 \<rparr>]] \<rparr>] \<rparr>],
       MaxJump = 1 \<rparr>"

text \<open>The same function with the lines of its source block nil.\<close>

definition exampleCodeNilLines :: Code where
  "exampleCodeNilLines =
     exampleCode\<lparr> Code.Source :=
        [\<lparr> Source.File = ''main.go'',
           Blocks = [\<lparr> LineRange.From = 6, LineRange.To = 8,
                       SourceBlock.Lines = None,
                       SourceBlock.Related = [] \<rparr>] \<rparr>] \<rparr>"

text \<open>A watching configuration. The task starts with the file missing; at the first tick
  the file is there but does not load; the window then takes the error, and at the second
  tick the file is unchanged.\<close>

definition exampleConfig :: FileUIConfig where
  "exampleConfig = \<lparr> Path = ''a.out'', Watch = True, Context = 3, ServerURL = [] \<rparr>"

definition missingEnv :: env where
  "missingEnv = exampleEnv\<lparr> os_Stat := (\<lambda>path. Inl statError) \<rparr>"

definition brokenEnv :: env where
  "brokenEnv = exampleEnv\<lparr> goobj_Load := (\<lambda>path. Inl (Error ''unrecognized object file'')) \<rparr>"

definition exampleRounds :: "((File, error) action list \<times> wake \<times> env) list" where
  "exampleRounds = [([], Tick, brokenEnv), ([TakeError], Tick, exampleEnv)]"

section \<open>The invariant of the two channels\<close>

text \<open>Each channel is empty or holds the value produced last for it.\<close>

definition holdsLatest :: "('f, 'e) chans \<Rightarrow> 'f option \<Rightarrow> 'e option \<Rightarrow> bool" where
  "holdsLatest ch lastFile lastErr \<longleftrightarrow>
     (fileLoaded ch = None \<or> fileLoaded ch = lastFile)
   \<and> (fileLoadError ch = None \<or> fileLoadError ch = lastErr)"

section \<open>Proofs\<close>

subsection \<open>Round trip of a decoded function through the wire types\<close>

lemma LineRange_roundtrip: "fromLineRangeInfo (toLineRangeInfo r) = r"
  by (simp add: fromLineRangeInfo_def toLineRangeInfo_def)

lemma SourceBlock_roundtrip: "fromSourceBlockInfo (toSourceBlockInfo b) = b"
proof -
  have "map (map (fromLineRangeInfo \<circ> toLineRangeInfo)) (SourceBlock.Related b)
          = SourceBlock.Related b"
    by (simp add: comp_def LineRange_roundtrip)
  then show ?thesis
    by (simp add: fromSourceBlockInfo_def toSourceBlockInfo_def)
qed

lemma Source_roundtrip: "fromSourceInfo (toSourceInfo s) = s"
  by (simp add: fromSourceInfo_def toSourceInfo_def comp_def SourceBlock_roundtrip)

lemma Inst_roundtrip: "fromInstructionInfo (toInstructionInfo i) = i"
  by (simp add: fromInstructionInfo_def toInstructionInfo_def)

text \<open>
  C6. A decoded function converted to the wire response by the server and converted back by
  the remote client is the same value: name, file, maxJump, every field of every
  instruction, and every source with its blocks, their lines and their related ranges.
  (The JSON text between the two conversions is produced and read by the standard
  library, outside these sources; the statement is about the two conversions.)
\<close>

theorem code_wire_roundtrip: "fromCodeResponse (toCodeResponse code) = code"
  by (simp add: fromCodeResponse_def toCodeResponse_def comp_def
      Inst_roundtrip Source_roundtrip)

subsection \<open>The registry of open files\<close>

text \<open>No handler stores a file under the empty path, so no registry a server reaches
  from \<open>NewServer\<close> has one.\<close>

lemma handleFiles_empty_key:
  "activeFiles s [] = None \<Longrightarrow> activeFiles (server (handleFiles E s m b)) [] = None"
  by (simp add: handleFiles_def split: httpMethod.splits sum.splits)

lemma handleFileOperations_empty_key:
  "activeFiles s [] = None \<Longrightarrow> activeFiles (server (handleFileOperations s p)) [] = None"
  by (simp add: handleFileOperations_def split: option.splits)

lemma handleFunctions_server: "server (handleFunctions E s p f) = s"
  by (simp add: handleFunctions_def split: option.splits sum.splits)

lemma handleFunctions_effects: "effects (handleFunctions E s p f) = []"
  by (simp add: handleFunctions_def split: option.splits sum.splits)

lemma handleFunctionOperations_server: "server (handleFunctionOperations E s n p c) = s"
  by (simp add: handleFunctionOperations_def split: option.splits)

lemma serve_empty_key:
  "activeFiles s [] = None \<Longrightarrow> activeFiles (server (serve E s r)) [] = None"
  by (cases r)
     (simp_all add: handleFiles_empty_key handleFileOperations_empty_key
        handleFunctions_server handleFunctionOperations_server)

lemma run_empty_key:
  "activeFiles s [] = None \<Longrightarrow> activeFiles (run reqs s) [] = None"
proof (induction reqs arbitrary: s)
  case Nil
  then show ?case by simp
next
  case (Cons a reqs)
  obtain E r where a: "a = (E, r)" by (cases a)
  from Cons.prems have "activeFiles (server (serve E s r)) [] = None"
    by (rule serve_empty_key)
  then show ?case using Cons.IH a by simp
qed

lemma reachable_empty_key: "activeFiles (run reqs (NewServer c)) [] = None"
  by (rule run_empty_key) (simp add: NewServer_def)

lemma reachable_path_nonempty:
  "activeFiles (run reqs (NewServer c)) p = Some f \<Longrightarrow> p \<noteq> []"
  using reachable_empty_key [of reqs c] by auto

text \<open>A path that is absent stays absent until a request loads it.\<close>

lemma handleFiles_absent:
  "activeFiles s p = None \<Longrightarrow> \<not> addsPath p (FilesReq m b) \<Longrightarrow>
   activeFiles (server (handleFiles E s m b)) p = None"
  by (cases m; cases b) (auto simp: handleFiles_def split: sum.splits)

lemma handleFileOperations_absent:
  "activeFiles s p = None \<Longrightarrow> activeFiles (server (handleFileOperations s q)) p = None"
  by (simp add: handleFileOperations_def split: option.splits)

lemma serve_absent:
  "activeFiles s p = None \<Longrightarrow> \<not> addsPath p r \<Longrightarrow>
   activeFiles (server (serve E s r)) p = None"
  by (cases r)
     (simp_all add: handleFiles_absent handleFileOperations_absent
        handleFunctions_server handleFunctionOperations_server del: addsPath.simps)

lemma run_absent:
  "activeFiles s p = None \<Longrightarrow> list_all (\<lambda>(E, r). \<not> addsPath p r) later \<Longrightarrow>
   activeFiles (run later s) p = None"
proof (induction later arbitrary: s)
  case Nil
  then show ?case by simp
next
  case (Cons a later)
  obtain E r where a: "a = (E, r)" by (cases a)
  from Cons.prems a have "activeFiles (server (serve E s r)) p = None"
    by (simp add: serve_absent)
  moreover from Cons.prems have "list_all (\<lambda>(E, r). \<not> addsPath p r) later" by simp
  ultimately show ?case using Cons.IH a by simp
qed

lemma exampleServer_files: "activeFiles exampleServer = [''a.out'' \<mapsto> exampleFile]"
  by (simp add: exampleServer_def handleFiles_def NewServer_def chooseLoader_def
      exampleEnv_def)

text \<open>
  C1. In every state the server reaches, a request to load a path that is already in the
  registry is answered with 200 OK, calls no loader (it has no effect at all), and leaves
  the server as it was: the path still maps to the file loaded first, and the registry has
  the same keys.
\<close>

theorem add_idempotent:
  assumes "s = run reqs (NewServer c)" and "activeFiles s p = Some f"
  shows "handleFiles E s POST (Inr p)
           = \<lparr> resp = Response StatusOK NoBody, server = s, effects = [] \<rparr>
       \<and> activeFiles (server (handleFiles E s POST (Inr p))) p = Some f
       \<and> dom (activeFiles (server (handleFiles E s POST (Inr p)))) = dom (activeFiles s)"
proof -
  from assms have "p \<noteq> []" using reachable_path_nonempty by blast
  with assms(2) show ?thesis by (simp add: handleFiles_def)
qed

theorem add_idempotent_witness:
  "exampleServer = run [(exampleEnv, FilesReq POST (Inr ''a.out''))] (NewServer 3)
   \<and> activeFiles exampleServer ''a.out'' = Some exampleFile
   \<and> handleFiles exampleEnv exampleServer POST (Inr ''a.out'')
       = \<lparr> resp = Response StatusOK NoBody, server = exampleServer, effects = [] \<rparr>
   \<and> effects (handleFiles exampleEnv (NewServer 3) POST (Inr ''a.out''))
       = [CallLoad Goobj ''a.out'']"
proof -
  have h: "activeFiles exampleServer ''a.out'' = Some exampleFile"
    by (simp add: exampleServer_files)
  have e: "effects (handleFiles exampleEnv (NewServer 3) POST (Inr ''a.out''))
             = [CallLoad Goobj ''a.out'']"
    by (simp add: handleFiles_def NewServer_def chooseLoader_def exampleEnv_def)
  from add_idempotent [OF exampleServer_def h, of exampleEnv] h e exampleServer_def
  show ?thesis by blast
qed

text \<open>
  C2. In every state the server reaches, removing a registered path answers 200 OK and
  calls \<open>Close\<close> on the file that was registered; after that, and after any further
  requests that do not load the path again, listing the functions of that path, and
  asking for the code of any function of it, answer 404 "File not found".
\<close>

theorem remove_then_not_found:
  assumes "s = run reqs (NewServer c)" and "activeFiles s p = Some f"
    and "list_all (\<lambda>(E, r). \<not> addsPath p r) later"
    and "s' = run later (server (handleFileOperations s p))"
  shows "resp (handleFileOperations s p) = Response StatusOK NoBody
       \<and> CallClose f \<in> set (effects (handleFileOperations s p))
       \<and> resp (handleFunctions E s' p nameFilter) = http_Error ''File not found'' StatusNotFound
       \<and> (functionName \<noteq> [] \<longrightarrow>
            resp (handleFunctionOperations E s' functionName p contextStr)
              = http_Error ''File not found'' StatusNotFound)"
proof -
  from assms(1,2) have ne: "p \<noteq> []" using reachable_path_nonempty by blast
  have r: "resp (handleFileOperations s p) = Response StatusOK NoBody"
    using ne assms(2) by (simp add: handleFileOperations_def)
  have c: "CallClose f \<in> set (effects (handleFileOperations s p))"
    using ne assms(2) by (simp add: handleFileOperations_def)
  have "activeFiles (server (handleFileOperations s p)) p = None"
    using ne assms(2) by (simp add: handleFileOperations_def)
  then have gone: "activeFiles s' p = None"
    using assms(3,4) by (simp add: run_absent)
  have q1: "resp (handleFunctions E s' p nameFilter)
              = http_Error ''File not found'' StatusNotFound"
    using ne gone by (simp add: handleFunctions_def)
  have q2: "functionName \<noteq> [] \<longrightarrow>
            resp (handleFunctionOperations E s' functionName p contextStr)
              = http_Error ''File not found'' StatusNotFound"
    using ne gone by (simp add: handleFunctionOperations_def)
  from r c q1 q2 show ?thesis by blast
qed

theorem remove_then_not_found_witness:
  "activeFiles exampleServer ''a.out'' = Some exampleFile
   \<and> list_all (\<lambda>(E, r). \<not> addsPath ''a.out'' r)
        [(exampleEnv, FunctionsReq ''a.out'' []),
         (exampleEnv, FilesReq POST (Inr ''b.out''))]
   \<and> resp (handleFileOperations exampleServer ''a.out'') = Response StatusOK NoBody
   \<and> CallClose exampleFile \<in> set (effects (handleFileOperations exampleServer ''a.out''))
   \<and> resp (handleFunctions exampleEnv
             (run [(exampleEnv, FunctionsReq ''a.out'' []),
                   (exampleEnv, FilesReq POST (Inr ''b.out''))]
                (server (handleFileOperations exampleServer ''a.out'')))
             ''a.out'' [])
       = http_Error ''File not found'' StatusNotFound
   \<and> resp (handleFunctionOperations exampleEnv
             (run [(exampleEnv, FunctionsReq ''a.out'' []),
                   (exampleEnv, FilesReq POST (Inr ''b.out''))]
                (server (handleFileOperations exampleServer ''a.out'')))
             ''main.main'' ''a.out'' [])
       = http_Error ''File not found'' StatusNotFound"
proof -
  have h: "activeFiles exampleServer ''a.out'' = Some exampleFile"
    by (simp add: exampleServer_files)
  have l: "list_all (\<lambda>(E, r). \<not> addsPath ''a.out'' r)
        [(exampleEnv, FunctionsReq ''a.out'' []),
         (exampleEnv, FilesReq POST (Inr ''b.out''))]"
    by simp
  from remove_then_not_found [OF exampleServer_def h l refl,
      of exampleEnv "[]" "''main.main''" "[]"] h l
  show ?thesis by simp
qed

text \<open>
  C3. In every state the server reaches, listing the functions of a registered path with a
  name filter that \<open>regexp.Compile\<close> rejects answers 400 Bad Request with the text
  "Invalid filter regex: ..." and changes nothing: the server is the same and nothing was
  called, so any query made next is answered as it would have been before. (The handler
  compiles the filter only when it is not empty; the empty pattern is a valid expression.)
\<close>

theorem invalid_filter_no_mutation:
  assumes "s = run reqs (NewServer c)" and "activeFiles s p = Some f"
    and "nameFilter \<noteq> []" and "regexp_Compile E nameFilter = Inl err"
  shows "resp (handleFunctions E s p nameFilter)
           = http_Error (''Invalid filter regex: '' @ errorText err) StatusBadRequest
       \<and> server (handleFunctions E s p nameFilter) = s
       \<and> effects (handleFunctions E s p nameFilter) = []
       \<and> handleFunctions E' (server (handleFunctions E s p nameFilter)) p validFilter
           = handleFunctions E' s p validFilter"
proof -
  from assms(1,2) have ne: "p \<noteq> []" using reachable_path_nonempty by blast
  have "resp (handleFunctions E s p nameFilter)
           = http_Error (''Invalid filter regex: '' @ errorText err) StatusBadRequest"
    using ne assms by (simp add: handleFunctions_def)
  then show ?thesis by (simp add: handleFunctions_server handleFunctions_effects)
qed

theorem invalid_filter_no_mutation_witness:
  "activeFiles exampleServer ''a.out'' = Some exampleFile
   \<and> ''('' \<noteq> []
   \<and> regexp_Compile exampleEnv ''(''
        = Inl (Error ''error parsing regexp: missing closing )'')
   \<and> resp (handleFunctions exampleEnv exampleServer ''a.out'' ''('')
        = http_Error ''Invalid filter regex: error parsing regexp: missing closing )''
            StatusBadRequest
   \<and> server (handleFunctions exampleEnv exampleServer ''a.out'' ''('') = exampleServer
   \<and> handleFunctions exampleEnv
        (server (handleFunctions exampleEnv exampleServer ''a.out'' ''('')) ''a.out'' ''^main''
        = handleFunctions exampleEnv exampleServer ''a.out'' ''^main''"
proof -
  have h: "activeFiles exampleServer ''a.out'' = Some exampleFile"
    by (simp add: exampleServer_files)
  have n: "''('' \<noteq> []" by simp
  have r: "regexp_Compile exampleEnv ''(''
             = Inl (Error ''error parsing regexp: missing closing )'')"
    by (simp add: exampleEnv_def)
  from invalid_filter_no_mutation [OF exampleServer_def h n r, of exampleEnv "''^main''"] h r
  show ?thesis by simp
qed

subsection \<open>Listing functions\<close>

lemma appendMatching_filter:
  "appendMatching rx fns acc
     = acc @ map (\<lambda>fn. \<lparr> FunctionInfo.Name = Func.Name fn \<rparr>)
               (filter (\<lambda>fn. rx (Func.Name fn)) fns)"
  by (induction fns arbitrary: acc) simp_all

lemma appendMatching_names:
  "appendMatching rx fns []
     = map (\<lambda>n. \<lparr> FunctionInfo.Name = n \<rparr>) (filter rx (map Func.Name fns))"
  by (simp add: appendMatching_filter filter_map comp_def)

text \<open>
  C10. In every state the server reaches, listing the functions of a registered path
  answers 200 OK with one entry per name, where the names are: with an empty filter, the
  names of all functions of the file, in the order of \<open>Funcs()\<close>; with a filter that
  compiles, exactly the names the compiled expression matches, in that same order. In both
  cases the names are a subsequence of the names of \<open>Funcs()\<close>.
\<close>

theorem list_functions_filtered:
  assumes "s = run reqs (NewServer c)" and "activeFiles s p = Some f"
    and "nameFilter = [] \<or> regexp_Compile E nameFilter = Inr rx"
    and "names = (if nameFilter = [] then map Func.Name (Funcs f)
                  else filter rx (map Func.Name (Funcs f)))"
  shows "resp (handleFunctions E s p nameFilter)
            = Response StatusOK (FunctionsJSON (map (\<lambda>n. \<lparr> FunctionInfo.Name = n \<rparr>) names))
       \<and> subseq names (map Func.Name (Funcs f))"
proof -
  from assms(1,2) have ne: "p \<noteq> []" using reachable_path_nonempty by blast
  have sub: "subseq names (map Func.Name (Funcs f))"
    using assms(4) by simp
  show ?thesis
  proof (cases "nameFilter = []")
    case True
    then show ?thesis using ne assms(2,4) sub
      by (simp add: handleFunctions_def comp_def)
  next
    case False
    with assms(3) have "regexp_Compile E nameFilter = Inr rx" by simp
    then show ?thesis using ne assms(2,4) False sub
      by (simp add: handleFunctions_def appendMatching_names)
  qed
qed

theorem list_functions_filtered_witness:
  "activeFiles exampleServer ''a.out'' = Some exampleFile
   \<and> regexp_Compile exampleEnv ''^main'' = Inr (\<lambda>name. take 4 name = ''main'')
   \<and> resp (handleFunctions exampleEnv exampleServer ''a.out'' ''^main'')
        = Response StatusOK (FunctionsJSON [\<lparr> FunctionInfo.Name = ''main.main'' \<rparr>,
                                            \<lparr> FunctionInfo.Name = ''main.helper'' \<rparr>])
   \<and> subseq [''main.main'', ''main.helper''] (map Func.Name (Funcs exampleFile))"
proof -
  have h: "activeFiles exampleServer ''a.out'' = Some exampleFile"
    by (simp add: exampleServer_files)
  have r: "regexp_Compile exampleEnv ''^main'' = Inr (\<lambda>name. take 4 name = ''main'')"
    by (simp add: exampleEnv_def)
  have n: "[''main.main'', ''main.helper'']
             = (if ''^main'' = [] then map Func.Name (Funcs exampleFile)
                else filter (\<lambda>name. take 4 name = ''main'') (map Func.Name (Funcs exampleFile)))"
    by (simp add: exampleFile_def)
  from list_functions_filtered [OF exampleServer_def h disjI2 [OF r] n] h r
  show ?thesis by simp
qed

subsection \<open>The serialized form\<close>

lemma shape_LineRangeInfo:
  "hasShape (Object [(''from'', Scalar), (''to'', Scalar)]) (encodeLineRangeInfo r)"
  by (simp add: encodeLineRangeInfo_def)

lemma shape_related:
  "hasShape (Array (Array (Object [(''from'', Scalar), (''to'', Scalar)])))
     (JArray (map (\<lambda>relatedRanges. JArray (map encodeLineRangeInfo relatedRanges)) rel))"
  by (simp add: list_all_iff shape_LineRangeInfo)

lemma shape_lines_or_null:
  "hasShape (ArrayOrNull Scalar)
     (case ls of None \<Rightarrow> JNull | Some lines \<Rightarrow> JArray (map JString lines))"
  by (cases ls) (simp_all add: list_all_iff)

lemma shape_lines_array:
  "ls \<noteq> None \<Longrightarrow>
   hasShape (Array Scalar)
     (case ls of None \<Rightarrow> JNull | Some lines \<Rightarrow> JArray (map JString lines))"
  by (cases ls) (simp_all add: list_all_iff)

lemma shape_SourceBlockInfo_wire:
  "hasShape (Object [(''from'', Scalar), (''to'', Scalar), (''lines'', ArrayOrNull Scalar),
       (''related'', Array (Array (Object [(''from'', Scalar), (''to'', Scalar)])))])
     (encodeSourceBlockInfo b)"
  using shape_related [of "SourceBlockInfo.Related b"]
    shape_lines_or_null [of "SourceBlockInfo.Lines b"]
  by (simp add: encodeSourceBlockInfo_def)

lemma shape_SourceBlockInfo_spec:
  "SourceBlockInfo.Lines b \<noteq> None \<Longrightarrow>
   hasShape (Object [(''from'', Scalar), (''to'', Scalar), (''lines'', Array Scalar),
       (''related'', Array (Array (Object [(''from'', Scalar), (''to'', Scalar)])))])
     (encodeSourceBlockInfo b)"
  using shape_related [of "SourceBlockInfo.Related b"]
    shape_lines_array [of "SourceBlockInfo.Lines b"]
  by (simp add: encodeSourceBlockInfo_def)

lemma shape_SourceInfo_wire:
  "hasShape (Object [(''file'', Scalar),
       (''blocks'', Array (Object [(''from'', Scalar), (''to'', Scalar),
          (''lines'', ArrayOrNull Scalar),
          (''related'', Array (Array (Object [(''from'', Scalar), (''to'', Scalar)])))]))])
     (encodeSourceInfo s)"
  by (simp add: encodeSourceInfo_def list_all_iff shape_SourceBlockInfo_wire)

lemma shape_SourceInfo_spec:
  "list_all (\<lambda>b. SourceBlockInfo.Lines b \<noteq> None) (SourceInfo.Blocks s) \<Longrightarrow>
   hasShape (Object [(''file'', Scalar),
       (''blocks'', Array (Object [(''from'', Scalar), (''to'', Scalar),
          (''lines'', Array Scalar),
          (''related'', Array (Array (Object [(''from'', Scalar), (''to'', Scalar)])))]))])
     (encodeSourceInfo s)"
  by (simp add: encodeSourceInfo_def list_all_iff shape_SourceBlockInfo_spec)

lemma shape_InstructionInfo:
  "hasShape (Object [(''pc'', Scalar), (''text'', Scalar), (''file'', Scalar),
                               (''line'', Scalar), (''refPc'', Scalar), (''refOffset'', Scalar),
                               (''refStack'', Scalar), (''call'', Scalar)])
     (encodeInstructionInfo i)"
  by (simp add: encodeInstructionInfo_def)

lemma toSourceInfo_linesNotNil:
  "list_all (\<lambda>block. SourceBlock.Lines block \<noteq> None) (Source.Blocks src) \<Longrightarrow>
   list_all (\<lambda>b. SourceBlockInfo.Lines b \<noteq> None) (SourceInfo.Blocks (toSourceInfo src))"
  by (simp add: toSourceInfo_def toSourceBlockInfo_def list_all_iff)

text \<open>
  C7. The serialized form of every decoded function the server answers with has exactly
  the members the specification fixes, under exactly its names and in its nesting:
  \<open>name\<close>, \<open>file\<close>, \<open>instructions\<close> (an array of objects with \<open>pc\<close>, \<open>text\<close>, \<open>file\<close>,
  \<open>line\<close>, \<open>refPc\<close>, \<open>refOffset\<close>, \<open>refStack\<close>, \<open>call\<close>), \<open>sources\<close> (an array of objects
  with \<open>file\<close> and \<open>blocks\<close>, each block an object with \<open>from\<close>, \<open>to\<close>, \<open>lines\<close> and
  \<open>related\<close>, the latter an array of arrays of objects with \<open>from\<close> and \<open>to\<close>) and
  \<open>maxJump\<close>, and no others. The member \<open>lines\<close> holds an array of strings, or \<open>null\<close>
  for a block whose \<open>Lines\<close> is nil; when no block has nil \<open>Lines\<close>, the form has the
  specification's shape as it is written, with \<open>lines\<close> an array.
\<close>

theorem wire_shape_fixed:
  "hasShape WireShape (encodeCodeResponse (toCodeResponse code))
   \<and> (linesNotNil code \<longrightarrow>
        hasShape DecodedFunctionShape (encodeCodeResponse (toCodeResponse code)))"
proof -
  have w: "hasShape WireShape (encodeCodeResponse (toCodeResponse code))"
    by (simp add: WireShape_def shapeWithLines_def encodeCodeResponse_def list_all_iff
        toCodeResponse_def shape_InstructionInfo shape_SourceInfo_wire)
  have d: "hasShape DecodedFunctionShape (encodeCodeResponse (toCodeResponse code))"
    if "linesNotNil code"
  proof -
    have "hasShape (Object [(''file'', Scalar),
           (''blocks'', Array (Object [(''from'', Scalar), (''to'', Scalar),
              (''lines'', Array Scalar),
              (''related'', Array (Array (Object [(''from'', Scalar), (''to'', Scalar)])))]))])
          (encodeSourceInfo (toSourceInfo src))"
      if src: "src \<in> set (Code.Source code)" for src
    proof -
      from src \<open>linesNotNil code\<close>
      have "list_all (\<lambda>block. SourceBlock.Lines block \<noteq> None) (Source.Blocks src)"
        unfolding linesNotNil_def list_all_iff by blast
      then show ?thesis
        by (intro shape_SourceInfo_spec toSourceInfo_linesNotNil)
    qed
    then show ?thesis
      by (simp add: DecodedFunctionShape_def shapeWithLines_def encodeCodeResponse_def
          list_all_iff toCodeResponse_def shape_InstructionInfo)
  qed
  from w d show ?thesis by blast
qed

theorem wire_shape_fixed_witness:
  "linesNotNil exampleCode
   \<and> encodeCodeResponse (toCodeResponse exampleCode)
     = JObject [(''name'', JString ''main.main''), (''file'', JString ''main.go''),
         (''instructions'',
            JArray [JObject [(''pc'', JNumber 4198400), (''text'', JString ''JMP 0x401000''),
                             (''file'', JString ''main.go''), (''line'', JNumber 7),
                             (''refPc'', JNumber 4198400), (''refOffset'', JNumber 0),
                             (''refStack'', JNumber 0), (''call'', JString [])]]),
         (''sources'',
            JArray [JObject [(''file'', JString ''main.go''),
               (''blocks'',
                  JArray [JObject [(''from'', JNumber 6), (''to'', JNumber 8),
                     (''lines'', JArray [JString ''func main() {'', JString ''  for {}'']),
                     (''related'',
                        JArray [JArray [],
                                JArray [JObject [(''from'', JNumber 0), (''to'', JNumber 1)]]])]])]]),
         (''maxJump'', JNumber 1)]
   \<and> hasShape DecodedFunctionShape (encodeCodeResponse (toCodeResponse exampleCode))
   \<and> hasShape WireShape (encodeCodeResponse (toCodeResponse exampleCodeNilLines))"
proof -
  have n: "linesNotNil exampleCode"
    by (simp add: linesNotNil_def exampleCode_def)
  have e: "encodeCodeResponse (toCodeResponse exampleCode)
     = JObject [(''name'', JString ''main.main''), (''file'', JString ''main.go''),
         (''instructions'',
            JArray [JObject [(''pc'', JNumber 4198400), (''text'', JString ''JMP 0x401000''),
                             (''file'', JString ''main.go''), (''line'', JNumber 7),
                             (''refPc'', JNumber 4198400), (''refOffset'', JNumber 0),
                             (''refStack'', JNumber 0), (''call'', JString [])]]),
         (''sources'',
            JArray [JObject [(''file'', JString ''main.go''),
               (''blocks'',
                  JArray [JObject [(''from'', JNumber 6), (''to'', JNumber 8),
                     (''lines'', JArray [JString ''func main() {'', JString ''  for {}'']),
                     (''related'',
                        JArray [JArray [],
                                JArray [JObject [(''from'', JNumber 0), (''to'', JNumber 1)]]])]])]]),
         (''maxJump'', JNumber 1)]"
    by (simp add: exampleCode_def toCodeResponse_def toInstructionInfo_def toSourceInfo_def
        toSourceBlockInfo_def toLineRangeInfo_def encodeCodeResponse_def
        encodeInstructionInfo_def encodeSourceInfo_def encodeSourceBlockInfo_def
        encodeLineRangeInfo_def)
  from wire_shape_fixed [of exampleCode] wire_shape_fixed [of exampleCodeNilLines] n e
  show ?thesis by simp
qed

text \<open>With nil \<open>Lines\<close> the member \<open>lines\<close> is there under its name and holds \<open>null\<close>.\<close>

lemma nil_lines_written_as_null:
  "encodeSourceBlockInfo (toSourceBlockInfo
      \<lparr> LineRange.From = 6, LineRange.To = 8,
        SourceBlock.Lines = None, SourceBlock.Related = [] \<rparr>)
     = JObject [(''from'', JNumber 6), (''to'', JNumber 8), (''lines'', JNull),
                (''related'', JArray [])]"
  by (simp add: encodeSourceBlockInfo_def toSourceBlockInfo_def)

subsection \<open>Choosing the loader\<close>

lemma isWasmFile_suffix: "isWasmFile path \<longleftrightarrow> suffix ''.wasm'' path"
proof
  assume "isWasmFile path"
  then have "path = take (length path - 5) path @ ''.wasm''"
    unfolding isWasmFile_def by (metis append_take_drop_id)
  then show "suffix ''.wasm'' path" unfolding suffix_def by blast
next
  assume "suffix ''.wasm'' path"
  then obtain zs where "path = zs @ ''.wasm''" unfolding suffix_def by blast
  then show "isWasmFile path" by (simp add: isWasmFile_def)
qed

text \<open>
  C8, as the code has it. The server's load handler chooses the WebAssembly loader exactly
  when the experimental switch \<open>workInProgressWASM\<close> is on and the path ends in \<open>.wasm\<close>,
  and the native loader otherwise; the content of the file plays no part in the choice.
  Both loaders return a value of the one interface \<open>disasm.File\<close> or an error, and the
  handler treats the two alike: for a path that is not empty and not registered, a loaded
  file is registered under the path and answered with 201 Created, an error is answered
  with 500 and changes nothing; the chosen loader is called once.
\<close>

theorem loader_chosen_by_switch_and_suffix:
  "chooseLoader E path = (if workInProgressWASM E \<and> suffix ''.wasm'' path then Wasmobj else Goobj)
   \<and> chooseLoader (E\<lparr> fileBytes := bytes \<rparr>) path = chooseLoader E path
   \<and> (path \<noteq> [] \<and> activeFiles s path = None \<longrightarrow>
        (case callLoader E (chooseLoader E path) path of
           Inr file \<Rightarrow>
             handleFiles E s POST (Inr path)
               = \<lparr> resp = Response StatusCreated NoBody,
                   server = s\<lparr> activeFiles := (activeFiles s)(path \<mapsto> file) \<rparr>,
                   effects = [CallLoad (chooseLoader E path) path] \<rparr>
         | Inl err \<Rightarrow>
             handleFiles E s POST (Inr path)
               = \<lparr> resp = http_Error (''Failed to load file: '' @ errorText err)
                            StatusInternalServerError,
                   server = s,
                   effects = [CallLoad (chooseLoader E path) path] \<rparr>))"
proof -
  have a: "chooseLoader E path
             = (if workInProgressWASM E \<and> suffix ''.wasm'' path then Wasmobj else Goobj)"
    by (simp add: chooseLoader_def isWasmFile_suffix)
  have b: "chooseLoader (E\<lparr> fileBytes := bytes \<rparr>) path = chooseLoader E path"
    by (simp add: chooseLoader_def)
  have c: "path \<noteq> [] \<and> activeFiles s path = None \<longrightarrow>
        (case callLoader E (chooseLoader E path) path of
           Inr file \<Rightarrow>
             handleFiles E s POST (Inr path)
               = \<lparr> resp = Response StatusCreated NoBody,
                   server = s\<lparr> activeFiles := (activeFiles s)(path \<mapsto> file) \<rparr>,
                   effects = [CallLoad (chooseLoader E path) path] \<rparr>
         | Inl err \<Rightarrow>
             handleFiles E s POST (Inr path)
               = \<lparr> resp = http_Error (''Failed to load file: '' @ errorText err)
                            StatusInternalServerError,
                   server = s,
                   effects = [CallLoad (chooseLoader E path) path] \<rparr>)"
    by (simp add: handleFiles_def split: sum.splits)
  from a b c show ?thesis by blast
qed

theorem loader_chosen_by_switch_and_suffix_witness:
  "chooseLoader wasmEnv ''prog.wasm'' = Wasmobj
   \<and> chooseLoader exampleEnv ''prog.wasm'' = Goobj
   \<and> ''prog.wasm'' \<noteq> [] \<and> activeFiles (NewServer 3) ''prog.wasm'' = None
   \<and> handleFiles wasmEnv (NewServer 3) POST (Inr ''prog.wasm'')
       = \<lparr> resp = Response StatusCreated NoBody,
           server = (NewServer 3)\<lparr> activeFiles := [''prog.wasm'' \<mapsto> exampleFile] \<rparr>,
           effects = [CallLoad Wasmobj ''prog.wasm''] \<rparr>"
proof -
  have w: "chooseLoader wasmEnv ''prog.wasm'' = Wasmobj"
    by (simp add: chooseLoader_def isWasmFile_def wasmEnv_def)
  have g: "chooseLoader exampleEnv ''prog.wasm'' = Goobj"
    by (simp add: chooseLoader_def exampleEnv_def)
  have n: "''prog.wasm'' \<noteq> [] \<and> activeFiles (NewServer 3) ''prog.wasm'' = None"
    by (simp add: NewServer_def)
  have l: "callLoader wasmEnv Wasmobj ''prog.wasm'' = Inr exampleFile"
    by (simp add: wasmEnv_def exampleEnv_def)
  have e: "activeFiles (NewServer 3) = Map.empty"
    by (simp add: NewServer_def)
  from loader_chosen_by_switch_and_suffix
      [of wasmEnv "''prog.wasm''" "\<lambda>path. []" "NewServer 3"] w g n l e
  show ?thesis by simp
qed

text \<open>Choosing by the magic bytes differs from what the code does: with the switch on, a
  file named \<open>prog.wasm\<close> that starts with an ELF header goes to the WebAssembly loader.\<close>

theorem magic_detection_counterexample:
  "fileBytes wasmEnv ''prog.wasm'' = [0x7F, 0x45, 0x4C, 0x46, 0x02, 0x01]
   \<and> specChoosesLoader wasmEnv ''prog.wasm'' = Goobj
   \<and> chooseLoader wasmEnv ''prog.wasm'' = Wasmobj
   \<and> effects (handleFiles wasmEnv (NewServer 3) POST (Inr ''prog.wasm''))
       = [CallLoad Wasmobj ''prog.wasm'']"
  by (simp add: chooseLoader_def specChoosesLoader_def wasmEnv_def isWasmFile_def
      hasWasmMagic_def handleFiles_def NewServer_def exampleEnv_def)

subsection \<open>Errors and what the caller sees of them\<close>

lemma failingServer_files: "activeFiles failingServer = [''a.out'' \<mapsto> failingFile]"
  by (simp add: failingServer_def handleFiles_def NewServer_def chooseLoader_def
      exampleEnv_def)

text \<open>A remote load that fails returns nil and prints the error, one that succeeds
  returns the code; and when the \<open>Load\<close> of a function returns nil, the server answers
  the request for its code with 500. These failures the caller can tell from success.\<close>

lemma NetworkFunc_Load_nil_on_failure:
  "(case GetFunctionCode httpGet (filePath nf) (name nf) (Options.Context opt) of
      Inl err \<Rightarrow> fst (NetworkFunc_Load httpGet nf opt) = None
                 \<and> snd (NetworkFunc_Load httpGet nf opt) \<noteq> []
    | Inr code \<Rightarrow> NetworkFunc_Load httpGet nf opt = (Some code, []))"
  by (simp add: NetworkFunc_Load_def split: sum.splits)

lemma nil_code_answers_500:
  "path \<noteq> [] \<Longrightarrow> functionName \<noteq> [] \<Longrightarrow> activeFiles s path = Some f \<Longrightarrow>
   find (\<lambda>fn. Func.Name fn = functionName) (Funcs f) = Some fn \<Longrightarrow>
   Func.Load fn (options s) = None \<Longrightarrow>
   resp (handleFunctionOperations E s functionName path [])
     = http_Error ''Failed to load function code'' StatusInternalServerError"
  by (simp add: handleFunctionOperations_def)

text \<open>
  C9. No failure is to reach the caller looking like a success, and in particular not a
  failed release of resources during Remove; the description of the HTTP interface that
  comes with the program lists "500 Internal Server Error: Failed to close file" among
  the answers to closing a file. The handler does not do so. Here the file registered
  under \<open>a.out\<close> has a \<open>Close\<close> that fails; removing it is answered 200 OK with no body,
  the very answer given for a file whose \<open>Close\<close> succeeds, and the failure appears
  only as a line in the server's log.
\<close>

theorem remove_with_failing_close_answers_ok:
  "activeFiles failingServer ''a.out'' = Some failingFile
   \<and> Close failingFile = Some (Error ''close a.out: input/output error'')
   \<and> resp (handleFileOperations failingServer ''a.out'') = Response StatusOK NoBody
   \<and> effects (handleFileOperations failingServer ''a.out'')
       = [CallClose failingFile,
          Logged ''Error closing file a.out: close a.out: input/output error'']
   \<and> Close exampleFile = None
   \<and> resp (handleFileOperations exampleServer ''a.out'')
       = resp (handleFileOperations failingServer ''a.out'')"
  by (simp add: failingServer_files exampleServer_files handleFileOperations_def
      failingFile_def exampleFile_def)

subsection \<open>The channels between the background task and the window\<close>

lemma loadFinished_file: "loadFinished (Inr file) ch = Some (ch\<lparr> fileLoaded := Some file \<rparr>)"
  by (simp add: loadFinished_def send_def drain_def)

lemma loadFinished_error: "loadFinished (Inl err) ch = Some (ch\<lparr> fileLoadError := Some err \<rparr>)"
  by (simp add: loadFinished_def send_def drain_def)

lemma loadFinished_never_blocks: "loadFinished r ch \<noteq> None"
  by (cases r) (simp_all add: loadFinished_file loadFinished_error)

lemma trace_latestOfItsKind:
  "holdsLatest ch lastFile lastErr \<Longrightarrow> latestOfItsKind lastFile lastErr (trace as ch)"
proof (induction as arbitrary: ch lastFile lastErr)
  case Nil
  then show ?case by simp
next
  case (Cons a as)
  show ?case
  proof (cases a)
    case (Produce r)
    show ?thesis
    proof (cases r)
      case (Inl err)
      have "holdsLatest (ch\<lparr> fileLoadError := Some err \<rparr>) lastFile (Some err)"
        using Cons.prems by (simp add: holdsLatest_def)
      then show ?thesis using Produce Inl Cons.IH
        by (simp add: loadFinished_error)
    next
      case (Inr exe)
      have "holdsLatest (ch\<lparr> fileLoaded := Some exe \<rparr>) (Some exe) lastErr"
        using Cons.prems by (simp add: holdsLatest_def)
      then show ?thesis using Produce Inr Cons.IH
        by (simp add: loadFinished_file)
    qed
  next
    case TakeError
    show ?thesis
    proof (cases "fileLoadError ch")
      case None
      then show ?thesis using TakeError Cons by simp
    next
      case (Some err)
      have "holdsLatest (ch\<lparr> fileLoadError := None \<rparr>) lastFile lastErr"
        using Cons.prems by (simp add: holdsLatest_def)
      moreover have "lastErr = Some err"
        using Cons.prems Some by (simp add: holdsLatest_def)
      ultimately show ?thesis using TakeError Some Cons.IH by simp
    qed
  next
    case TakeLoaded
    show ?thesis
    proof (cases "fileLoaded ch")
      case None
      then show ?thesis using TakeLoaded Cons by simp
    next
      case (Some exe)
      have "holdsLatest (ch\<lparr> fileLoaded := None \<rparr>) lastFile lastErr"
        using Cons.prems by (simp add: holdsLatest_def)
      moreover have "lastFile = Some exe"
        using Cons.prems Some by (simp add: holdsLatest_def)
      ultimately show ?thesis using TakeLoaded Some Cons.IH by simp
    qed
  qed
qed

text \<open>
  C4, as the code has it. There is one slot for loaded files and one for errors.
  \<open>loadFinished\<close> never blocks; it replaces whatever is pending in the slot of the result's
  own kind and leaves the other slot alone. So, in every schedule of results produced and
  of takes by the window, every file the window observes is the file produced last before
  that moment, and every error it observes is the error produced last before that moment.
\<close>

theorem latest_of_each_kind_wins:
  "loadFinished (Inr file) ch = Some (ch\<lparr> fileLoaded := Some file \<rparr>)
   \<and> loadFinished (Inl err) ch = Some (ch\<lparr> fileLoadError := Some err \<rparr>)
   \<and> latestOfItsKind None None (trace schedule emptyChans)"
proof -
  have "latestOfItsKind None None (trace schedule emptyChans)"
    by (rule trace_latestOfItsKind) (simp add: holdsLatest_def emptyChans_def)
  then show ?thesis by (simp add: loadFinished_file loadFinished_error)
qed

theorem latest_of_each_kind_wins_witness:
  "latestOfItsKind None None
     (trace [Produce (Inl statError), Produce (Inr exampleFile), TakeLoaded, TakeError,
             Produce (Inr exampleFile), Produce (Inr (exampleFile\<lparr> Funcs := [] \<rparr>)), TakeLoaded]
        emptyChans)
   \<and> trace [Produce (Inl statError), Produce (Inr exampleFile), TakeLoaded, TakeError,
             Produce (Inr exampleFile), Produce (Inr (exampleFile\<lparr> Funcs := [] \<rparr>)), TakeLoaded]
        emptyChans
     = [Produced (Inl statError), Produced (Inr exampleFile),
        Observed (Inr exampleFile), Observed (Inl statError),
        Produced (Inr exampleFile), Produced (Inr (exampleFile\<lparr> Funcs := [] \<rparr>)),
        Observed (Inr (exampleFile\<lparr> Funcs := [] \<rparr>))]"
proof -
  have "trace [Produce (Inl statError), Produce (Inr exampleFile), TakeLoaded, TakeError,
             Produce (Inr exampleFile), Produce (Inr (exampleFile\<lparr> Funcs := [] \<rparr>)), TakeLoaded]
        emptyChans
     = [Produced (Inl statError), Produced (Inr exampleFile),
        Observed (Inr exampleFile), Observed (Inl statError),
        Produced (Inr exampleFile), Produced (Inr (exampleFile\<lparr> Funcs := [] \<rparr>)),
        Observed (Inr (exampleFile\<lparr> Funcs := [] \<rparr>))]"
    by (simp add: loadFinished_file loadFinished_error emptyChans_def)
  with latest_of_each_kind_wins [of exampleFile emptyChans statError
      "[Produce (Inl statError), Produce (Inr exampleFile), TakeLoaded, TakeError,
        Produce (Inr exampleFile), Produce (Inr (exampleFile\<lparr> Funcs := [] \<rparr>)), TakeLoaded]"]
  show ?thesis by simp
qed

text \<open>Across the two kinds the latest result does not win: an error that is pending when a
  file is loaded stays pending beside it, and the window can observe that error after the
  newer file has been produced, and even after it has observed the file.\<close>

theorem latest_wins_counterexample:
  "after [Produce (Inl statError), Produce (Inr exampleFile)] emptyChans
     = \<lparr> fileLoaded = Some exampleFile, fileLoadError = Some statError \<rparr>
   \<and> trace [Produce (Inl statError), Produce (Inr exampleFile), TakeLoaded, TakeError] emptyChans
     = [Produced (Inl statError), Produced (Inr exampleFile),
        Observed (Inr exampleFile), Observed (Inl statError)]
   \<and> \<not> latestOnly None
         (trace [Produce (Inl statError), Produce (Inr exampleFile), TakeLoaded, TakeError]
            emptyChans)"
  by (simp add: loadFinished_file loadFinished_error emptyChans_def)

subsection \<open>The watch loop\<close>

lemma pollOnce_stat_error:
  "os_Stat E (Path cfg) = Inl err \<Longrightarrow>
   pollOnce E cfg w = Some (w\<lparr> statCalls := Suc (statCalls w),
                               channels := (channels w)\<lparr> fileLoadError := Some err \<rparr> \<rparr>)"
  by (simp add: pollOnce_def loadFinished_error)

lemma pollOnce_load_error:
  "os_Stat E (Path cfg) = Inr t \<Longrightarrow> t \<noteq> lastModTime w \<Longrightarrow> localLoad E (Path cfg) = Inl err \<Longrightarrow>
   pollOnce E cfg w = Some (w\<lparr> statCalls := Suc (statCalls w), lastModTime := t,
                               channels := (channels w)\<lparr> fileLoadError := Some err \<rparr> \<rparr>)"
  by (simp add: pollOnce_def loadFinished_error)

lemma pollOnce_returns:
  "\<exists>w1. pollOnce E cfg w = Some w1 \<and> statCalls w1 = Suc (statCalls w)"
proof (cases "os_Stat E (Path cfg)")
  case (Inl err)
  then show ?thesis by (simp add: pollOnce_stat_error)
next
  case (Inr t)
  show ?thesis
  proof (cases "localLoad E (Path cfg)")
    case (Inl err)
    with Inr show ?thesis by (simp add: pollOnce_def Let_def loadFinished_error)
  next
    case r: (Inr exe)
    with Inr show ?thesis by (simp add: pollOnce_def Let_def loadFinished_file)
  qed
qed

lemma statCalls_waitFor: "statCalls (waitFor takes w) = statCalls w"
  by (simp add: waitFor_def)

text \<open>While watching and ticking, the loop is the body run in the first environment, and
  then, for each round, the window's takes followed by the body run in the round's
  environment.\<close>

lemma watchLoop_first:
  "Watch cfg \<Longrightarrow> watchLoop cfg E [] w = (Waiting, the (pollOnce E cfg w))"
  using pollOnce_returns [of E cfg w] by auto

lemma watchLoop_next:
  "Watch cfg \<Longrightarrow> list_all (\<lambda>(takes, wk, E'). wk = Tick) rounds \<Longrightarrow>
   watchLoop cfg E (rounds @ [(takes, Tick, E')]) w
     = (Waiting, the (pollOnce E' cfg (waitFor takes (snd (watchLoop cfg E rounds w)))))"
proof (induction rounds arbitrary: E w)
  case Nil
  obtain w1 where w1: "pollOnce E cfg w = Some w1"
    using pollOnce_returns by blast
  then show ?case using Nil.prems(1) watchLoop_first [OF Nil.prems(1)] by simp
next
  case (Cons a rounds)
  obtain tk wk E1 where a: "a = (tk, wk, E1)" by (cases a)
  from Cons.prems a have wk: "wk = Tick" by simp
  from Cons.prems have rest: "list_all (\<lambda>(takes, wk, E'). wk = Tick) rounds" by simp
  obtain w1 where w1: "pollOnce E cfg w = Some w1"
    using pollOnce_returns by blast
  have "watchLoop cfg E ((a # rounds) @ [(takes, Tick, E')]) w
          = watchLoop cfg E1 (rounds @ [(takes, Tick, E')]) (waitFor tk w1)"
    using a wk w1 Cons.prems(1) by simp
  moreover have "watchLoop cfg E (a # rounds) w = watchLoop cfg E1 rounds (waitFor tk w1)"
    using a wk w1 Cons.prems(1) by simp
  ultimately show ?case
    using Cons.IH [OF Cons.prems(1) rest, of E1 "waitFor tk w1"] by simp
qed

lemma watchLoop_keeps_polling:
  "Watch cfg \<Longrightarrow> list_all (\<lambda>(takes, wk, E'). wk = Tick) rounds \<Longrightarrow>
   fst (watchLoop cfg E rounds w) = Waiting
   \<and> statCalls (snd (watchLoop cfg E rounds w)) = statCalls w + length rounds + 1"
proof (induction rounds arbitrary: E w)
  case Nil
  obtain w1 where "pollOnce E cfg w = Some w1" "statCalls w1 = Suc (statCalls w)"
    using pollOnce_returns by blast
  then show ?case using Nil.prems(1) by simp
next
  case (Cons a rounds)
  obtain tk wk E1 where a: "a = (tk, wk, E1)" by (cases a)
  from Cons.prems a have wk: "wk = Tick" by simp
  from Cons.prems have rest: "list_all (\<lambda>(takes, wk, E'). wk = Tick) rounds" by simp
  obtain w1 where w1: "pollOnce E cfg w = Some w1" "statCalls w1 = Suc (statCalls w)"
    using pollOnce_returns by blast
  have "watchLoop cfg E (a # rounds) w = watchLoop cfg E1 rounds (waitFor tk w1)"
    using a wk w1 Cons.prems(1) by simp
  then show ?case
    using Cons.IH [OF Cons.prems(1) rest, of E1 "waitFor tk w1"] w1
    by (simp add: statCalls_waitFor)
qed

text \<open>
  C5. While watching (local mode, \<open>Watch\<close> set), whatever \<open>os.Stat\<close> and the loader
  return and whatever the window takes between the polls, after any number of ticks the
  background task has neither returned nor blocked: it has called \<open>os.Stat\<close> once on
  entry and once after each tick, and waits for the next tick. Every poll of the loop that
  fails is reported: the first poll, run in the state the task starts in, and every later
  poll, run after a tick in the state the task waited in (with what the window took
  meanwhile removed). When \<open>os.Stat\<close> fails in that poll, the task then waits with
  exactly that error in \<open>fileLoadError\<close> and nothing else changed; when the modification
  time has changed and the load fails, it waits with the new time recorded and the load's
  error in \<open>fileLoadError\<close>. In both cases the window's next take of an error observes
  that error. (The length of the interval, 100 ms, is the ticker's; here a tick is an
  event.)
\<close>

theorem watch_survives_failures:
  assumes "Watch cfg" and "ServerURL cfg = []"
    and "list_all (\<lambda>(takes, wk, E'). wk = Tick) rounds"
    and "before = waitFor takes (snd (backgroundTask cfg remote E rounds w))"
    and "final = backgroundTask cfg remote E (rounds @ [(takes, Tick, E')]) w"
    and "first = backgroundTask cfg remote E [] w"
  shows "fst (backgroundTask cfg remote E rounds w) = Waiting
       \<and> statCalls (snd (backgroundTask cfg remote E rounds w))
           = statCalls w + length rounds + 1
       \<and> fst final = Waiting \<and> fst first = Waiting
       \<and> (\<forall>err. os_Stat E (Path cfg) = Inl err \<longrightarrow>
            snd first = w\<lparr> statCalls := Suc (statCalls w),
                            channels := (channels w)\<lparr> fileLoadError := Some err \<rparr> \<rparr>
            \<and> snd (step TakeError (channels (snd first))) = [Observed (Inl err)])
       \<and> (\<forall>t err. os_Stat E (Path cfg) = Inr t \<and> t \<noteq> lastModTime w
                  \<and> localLoad E (Path cfg) = Inl err \<longrightarrow>
            snd first = w\<lparr> statCalls := Suc (statCalls w), lastModTime := t,
                            channels := (channels w)\<lparr> fileLoadError := Some err \<rparr> \<rparr>
            \<and> snd (step TakeError (channels (snd first))) = [Observed (Inl err)])
       \<and> (\<forall>err. os_Stat E' (Path cfg) = Inl err \<longrightarrow>
            snd final = before\<lparr> statCalls := Suc (statCalls before),
                                 channels := (channels before)\<lparr> fileLoadError := Some err \<rparr> \<rparr>
            \<and> snd (step TakeError (channels (snd final))) = [Observed (Inl err)])
       \<and> (\<forall>t err. os_Stat E' (Path cfg) = Inr t \<and> t \<noteq> lastModTime before
                  \<and> localLoad E' (Path cfg) = Inl err \<longrightarrow>
            snd final = before\<lparr> statCalls := Suc (statCalls before), lastModTime := t,
                                 channels := (channels before)\<lparr> fileLoadError := Some err \<rparr> \<rparr>
            \<and> snd (step TakeError (channels (snd final))) = [Observed (Inl err)])"
proof -
  have bt: "backgroundTask cfg remote E rs w = watchLoop cfg E rs w" for rs
    using assms(2) by (simp add: backgroundTask_def)
  have alive: "fst (backgroundTask cfg remote E rounds w) = Waiting"
    and calls: "statCalls (snd (backgroundTask cfg remote E rounds w))
           = statCalls w + length rounds + 1"
    using watchLoop_keeps_polling [OF assms(1,3), of E w] by (simp_all add: bt)
  have fin: "final = (Waiting, the (pollOnce E' cfg before))"
    using watchLoop_next [OF assms(1,3), of E takes E' w] assms(4,5) by (simp add: bt)
  have fst: "first = (Waiting, the (pollOnce E cfg w))"
    using watchLoop_first [OF assms(1), of E w] assms(6) by (simp add: bt)
  have a: "\<forall>err. os_Stat E (Path cfg) = Inl err \<longrightarrow>
            snd first = w\<lparr> statCalls := Suc (statCalls w),
                            channels := (channels w)\<lparr> fileLoadError := Some err \<rparr> \<rparr>
            \<and> snd (step TakeError (channels (snd first))) = [Observed (Inl err)]"
    by (simp add: fst pollOnce_stat_error)
  have b: "\<forall>t err. os_Stat E (Path cfg) = Inr t \<and> t \<noteq> lastModTime w
                  \<and> localLoad E (Path cfg) = Inl err \<longrightarrow>
            snd first = w\<lparr> statCalls := Suc (statCalls w), lastModTime := t,
                            channels := (channels w)\<lparr> fileLoadError := Some err \<rparr> \<rparr>
            \<and> snd (step TakeError (channels (snd first))) = [Observed (Inl err)]"
    by (simp add: fst pollOnce_load_error)
  have c: "\<forall>err. os_Stat E' (Path cfg) = Inl err \<longrightarrow>
            snd final = before\<lparr> statCalls := Suc (statCalls before),
                                 channels := (channels before)\<lparr> fileLoadError := Some err \<rparr> \<rparr>
            \<and> snd (step TakeError (channels (snd final))) = [Observed (Inl err)]"
    by (simp add: fin pollOnce_stat_error)
  have d: "\<forall>t err. os_Stat E' (Path cfg) = Inr t \<and> t \<noteq> lastModTime before
                  \<and> localLoad E' (Path cfg) = Inl err \<longrightarrow>
            snd final = before\<lparr> statCalls := Suc (statCalls before), lastModTime := t,
                                 channels := (channels before)\<lparr> fileLoadError := Some err \<rparr> \<rparr>
            \<and> snd (step TakeError (channels (snd final))) = [Observed (Inl err)]"
    by (simp add: fin pollOnce_load_error)
  have f1: "fst final = Waiting" and f2: "fst first = Waiting"
    by (simp_all add: fin fst)
  show ?thesis
    by (intro conjI) (fact alive, fact calls, fact f1, fact f2, fact a, fact b, fact c, fact d)
qed

theorem watch_survives_failures_witness:
  "Watch exampleConfig \<and> ServerURL exampleConfig = []
   \<and> list_all (\<lambda>(takes, wk, E'). wk = Tick) exampleRounds
   \<and> os_Stat missingEnv (Path exampleConfig) = Inl statError
   \<and> backgroundTask exampleConfig (Inl statError) missingEnv [] newWatcher
       = (Waiting, \<lparr> lastModTime = 0,
                     channels = \<lparr> fileLoaded = None, fileLoadError = Some statError \<rparr>,
                     statCalls = 1 \<rparr>)
   \<and> backgroundTask exampleConfig (Inl statError) missingEnv exampleRounds newWatcher
       = (Waiting, \<lparr> lastModTime = 1,
                     channels = \<lparr> fileLoaded = None, fileLoadError = None \<rparr>,
                     statCalls = 3 \<rparr>)
   \<and> backgroundTask exampleConfig (Inl statError) missingEnv
         (exampleRounds @ [([], Tick, missingEnv)]) newWatcher
       = (Waiting, \<lparr> lastModTime = 1,
                     channels = \<lparr> fileLoaded = None, fileLoadError = Some statError \<rparr>,
                     statCalls = 4 \<rparr>)"
proof -
  have a: "Watch exampleConfig" and b: "ServerURL exampleConfig = []"
    by (simp_all add: exampleConfig_def)
  have c: "list_all (\<lambda>(takes, wk, E'). wk = Tick) exampleRounds"
    by (simp add: exampleRounds_def)
  have d: "os_Stat missingEnv (Path exampleConfig) = Inl statError"
    by (simp add: missingEnv_def)
  have r: "backgroundTask exampleConfig (Inl statError) missingEnv exampleRounds newWatcher
       = (Waiting, \<lparr> lastModTime = 1,
                     channels = \<lparr> fileLoaded = None, fileLoadError = None \<rparr>,
                     statCalls = 3 \<rparr>)"
    by (simp add: backgroundTask_def exampleConfig_def exampleRounds_def newWatcher_def
        emptyChans_def missingEnv_def brokenEnv_def exampleEnv_def pollOnce_def localLoad_def
        loadFinished_error loadFinished_file waitFor_def)
  from watch_survives_failures
      [where cfg = exampleConfig and rounds = exampleRounds and remote = "Inl statError"
         and E = missingEnv and w = newWatcher and takes = "[]" and E' = missingEnv,
       OF a b c refl refl refl] a b c d r
  show ?thesis by (simp add: newWatcher_def emptyChans_def waitFor_def prod_eq_iff)
qed

end
